theory Spec2Isabelle
  imports Complex_Main "HOL-Library.Sublist"
begin

section \<open>Python values, exceptions and effects\<close>

text \<open>
  The module \<^verbatim>\<open>src/mesh_processing/mesh_converter.py\<close> is a thin driver over open3d,
  trimesh, numpy, \<^verbatim>\<open>os\<close> and \<^verbatim>\<open>pathlib\<close>. The embedding keeps the driver as it is
  written and takes the third-party calls as the fields of a record \<open>lib\<close>; the pure
  string functions of \<^verbatim>\<open>pathlib\<close> and \<^verbatim>\<open>os.path\<close> are written out (POSIX flavour,
  CPython 3.8 to 3.13).

  A call that may raise returns \<open>exn + 'a\<close>; a call that writes to the file system returns
  the file system it left together with the exception it raised, if any, since a call that
  raises may already have written. The record \<open>world\<close> holds what the driver does to its
  surroundings: \<open>printed\<close>, the lines of the driver's own \<^verbatim>\<open>print\<close> calls in order (what the
  packages write to the same stream is not recorded), and \<open>fsys\<close>, the file system.
\<close>

datatype exn =
  ValueError | TypeError | IndexError | OSError | RuntimeError | AttributeError | Exception string

record 's world =
  printed :: "string list"
  fsys :: 's

definition print :: "string \<Rightarrow> 's world \<Rightarrow> 's world" where
  "print line w = w\<lparr>printed := printed w @ [line]\<rparr>"

definition bindE :: "exn + 'a \<Rightarrow> ('a \<Rightarrow> exn + 'b) \<Rightarrow> exn + 'b" where
  "bindE r f = (case r of Inl e \<Rightarrow> Inl e | Inr x \<Rightarrow> f x)"

definition bindW :: "'w \<times> (exn + 'a) \<Rightarrow> ('w \<Rightarrow> 'a \<Rightarrow> 'w \<times> (exn + 'b)) \<Rightarrow> 'w \<times> (exn + 'b)" where
  "bindW r f = (case r of (w, Inl e) \<Rightarrow> (w, Inl e) | (w, Inr x) \<Rightarrow> f w x)"

text \<open>A call on the file system: its file system is kept, whether it raised or not.\<close>

definition effect :: "'s world \<Rightarrow> 's \<times> exn option \<Rightarrow> 's world \<times> (exn + unit)" where
  "effect w r = (w\<lparr>fsys := fst r\<rparr>, case snd r of None \<Rightarrow> Inr () | Some e \<Rightarrow> Inl e)"

subsection \<open>Formatting of integers in f-strings\<close>

definition digit_char :: "nat \<Rightarrow> char" where
  "digit_char d = ''0123456789'' ! (d mod 10)"

fun show_nat :: "nat \<Rightarrow> string" where
  "show_nat n = (if n < 10 then [digit_char n] else show_nat (n div 10) @ [digit_char (n mod 10)])"

declare show_nat.simps [simp del]

definition show_int :: "int \<Rightarrow> string" where
  "show_int i = (if i < 0 then CHR ''-'' # show_nat (nat (- i)) else show_nat (nat i))"

definition show_bool :: "bool \<Rightarrow> string" where
  "show_bool b = (if b then ''True'' else ''False'')"

subsection \<open>\<^verbatim>\<open>pathlib.PurePosixPath\<close> and \<^verbatim>\<open>os.path.join\<close>\<close>

text \<open>\<^verbatim>\<open>str.split(sep)\<close> for a one-character separator.\<close>

fun split_on :: "char \<Rightarrow> string \<Rightarrow> string list" where
  "split_on c [] = [[]]"
| "split_on c (x # xs) =
     (if x = c then [] # split_on c xs
      else (case split_on c xs of [] \<Rightarrow> [[x]] | y # ys \<Rightarrow> (x # y) # ys))"

text \<open>\<^verbatim>\<open>'/'.join(parts)\<close>.\<close>

fun join_sep :: "string list \<Rightarrow> string" where
  "join_sep [] = []"
| "join_sep [x] = x"
| "join_sep (x # y # ys) = x @ ''/'' @ join_sep (y # ys)"

record pure_path =
  root :: string
  parts :: "string list"

text \<open>
  \<^verbatim>\<open>Path(s)\<close>: the root is \<^verbatim>\<open>/\<close>, or \<^verbatim>\<open>//\<close> for exactly two leading slashes; empty and
  \<^verbatim>\<open>.\<close> components are dropped.
\<close>

definition parse_path :: "string \<Rightarrow> pure_path" where
  "parse_path s =
     (let stripped = dropWhile (\<lambda>c. c = CHR ''/'') s;
          n = length s - length stripped
      in \<lparr>root = (if n = 0 then [] else if n = 2 then ''//'' else ''/''),
          parts = filter (\<lambda>x. x \<noteq> [] \<and> x \<noteq> ''.'') (split_on CHR ''/'' stripped)\<rparr>)"

definition str_path :: "pure_path \<Rightarrow> string" where
  "str_path p = (let s = root p @ join_sep (parts p) in if s = [] then ''.'' else s)"

definition path_name :: "pure_path \<Rightarrow> string" where
  "path_name p = (if parts p = [] then [] else last (parts p))"

text \<open>\<^verbatim>\<open>name.rfind('.')\<close>: the index of the last dot, or \<open>-1\<close>.\<close>

definition rfind :: "char \<Rightarrow> string \<Rightarrow> int" where
  "rfind c s =
     (if c \<in> set s then int (length s) - 1 - int (length (takeWhile (\<lambda>x. x \<noteq> c) (rev s)))
      else - 1)"

definition path_suffix :: "pure_path \<Rightarrow> string" where
  "path_suffix p =
     (let name = path_name p; i = rfind CHR ''.'' name
      in if 0 < i \<and> i < int (length name) - 1 then drop (nat i) name else [])"

definition path_stem :: "pure_path \<Rightarrow> string" where
  "path_stem p =
     (let name = path_name p; i = rfind CHR ''.'' name
      in if 0 < i \<and> i < int (length name) - 1 then take (nat i) name else name)"

definition with_suffix :: "pure_path \<Rightarrow> string \<Rightarrow> exn + pure_path" where
  "with_suffix p sfx =
     (if CHR ''/'' \<in> set sfx then Inl ValueError
      else if (sfx \<noteq> [] \<and> hd sfx \<noteq> CHR ''.'') \<or> sfx = ''.'' then Inl ValueError
      else let name = path_name p in
        if name = [] then Inl ValueError
        else let old_suffix = path_suffix p;
                 name' = (if old_suffix = [] then name @ sfx
                          else take (length name - length old_suffix) name @ sfx)
             in Inr (p\<lparr>parts := butlast (parts p) @ [name']\<rparr>))"

definition os_path_join :: "string \<Rightarrow> string \<Rightarrow> string" where
  "os_path_join a b =
     (if b \<noteq> [] \<and> hd b = CHR ''/'' then b
      else if a = [] \<or> last a = CHR ''/'' then a @ b
      else a @ ''/'' @ b)"

section \<open>The third-party interface\<close>

text \<open>
  Type parameters: \<open>'p\<close> an open3d point cloud, \<open>'m\<close> an open3d triangle mesh, \<open>'t\<close> a
  \<^verbatim>\<open>trimesh.Trimesh\<close>, \<open>'v\<close> a voxel grid, \<open>'f\<close> a double, \<open>'s\<close> the file system.
  A method that mutates its receiver returns the updated object.

  \<open>tm_Trimesh\<close> is the constructor as line 155 calls it, with its default processing.
  \<open>tm_to_mesh\<close> is the call \<^verbatim>\<open>.to_mesh()\<close> of line 171 on the value of \<^verbatim>\<open>as_boxes()\<close>, which
  is a \<^verbatim>\<open>Trimesh\<close>; the class \<^verbatim>\<open>trimesh.Trimesh\<close> has no attribute of that name, so with
  trimesh itself this field is \<^verbatim>\<open>AttributeError\<close> at every argument. The statements that
  depend on it say so in a hypothesis.
\<close>

type_synonym 'f vec3 = "'f \<times> 'f \<times> 'f"
type_synonym tri = "nat \<times> nat \<times> nat"

record ('p, 'm, 't, 'v, 'f, 's) lib =
  o3d_read_point_cloud :: "string \<Rightarrow> 's \<Rightarrow> exn + 'p"
  o3d_points :: "'p \<Rightarrow> 'f vec3 list"
  o3d_has_normals :: "'p \<Rightarrow> bool"
  o3d_compute_nearest_neighbor_distance :: "'p \<Rightarrow> exn + 'f list"
  o3d_estimate_normals :: "'p \<Rightarrow> 'f \<Rightarrow> int \<Rightarrow> exn + 'p"
  o3d_orient_normals_consistent_tangent_plane :: "'p \<Rightarrow> int \<Rightarrow> exn + 'p"
  o3d_create_from_point_cloud_poisson :: "'p \<Rightarrow> int \<Rightarrow> int \<Rightarrow> 'f \<Rightarrow> bool \<Rightarrow> exn + ('m \<times> 'f list)"
  o3d_vertices :: "'m \<Rightarrow> 'f vec3 list"
  o3d_triangles :: "'m \<Rightarrow> tri list"
  o3d_remove_vertices_by_mask :: "'m \<Rightarrow> bool list \<Rightarrow> exn + 'm"
  o3d_remove_degenerate_triangles :: "'m \<Rightarrow> exn + 'm"
  o3d_remove_duplicated_triangles :: "'m \<Rightarrow> exn + 'm"
  o3d_remove_duplicated_vertices :: "'m \<Rightarrow> exn + 'm"
  o3d_remove_non_manifold_edges :: "'m \<Rightarrow> exn + 'm"
  o3d_TriangleMesh :: "'f vec3 list \<Rightarrow> tri list \<Rightarrow> 'm"
  np_mean :: "'f list \<Rightarrow> 'f"
  np_quantile :: "'f list \<Rightarrow> 'f \<Rightarrow> exn + 'f"
  py_float :: "rat \<Rightarrow> 'f"
  f_mul_int :: "'f \<Rightarrow> int \<Rightarrow> 'f"
  f_div_int :: "'f \<Rightarrow> int \<Rightarrow> 'f"
  f_less :: "'f \<Rightarrow> 'f \<Rightarrow> bool"
  f_format4 :: "'f \<Rightarrow> string"
  tm_Trimesh :: "'f vec3 list \<Rightarrow> tri list \<Rightarrow> exn + 't"
  tm_is_watertight :: "'t \<Rightarrow> bool"
  tm_fill_holes :: "'t \<Rightarrow> exn + 't"
  tm_extents_max :: "'t \<Rightarrow> exn + 'f"
  tm_voxelized :: "'t \<Rightarrow> 'f \<Rightarrow> exn + 'v"
  tm_as_boxes :: "'v \<Rightarrow> exn + 't"
  tm_to_mesh :: "'t \<Rightarrow> exn + 't"
  tm_filter_laplacian :: "'t \<Rightarrow> exn + 't"
  tm_vertices :: "'t \<Rightarrow> 'f vec3 list"
  tm_faces :: "'t \<Rightarrow> tri list"
  tm_volume :: "'t \<Rightarrow> 'f"
  tm_area :: "'t \<Rightarrow> 'f"
  tm_export :: "'t \<Rightarrow> string \<Rightarrow> 's \<Rightarrow> 's \<times> exn option"
  os_makedirs :: "string \<Rightarrow> bool \<Rightarrow> 's \<Rightarrow> 's \<times> exn option"

section \<open>The methods of \<^verbatim>\<open>MeshConverter\<close>\<close>

text \<open>
  Lines 20 to 32. \<^verbatim>\<open>o3d.io.read_point_cloud\<close> reads from the file system; the number of
  points is printed.
\<close>

definition load_point_cloud ::
  "('p, 'm, 't, 'v, 'f, 's) lib \<Rightarrow> string \<Rightarrow> 's world \<Rightarrow> 's world \<times> (exn + 'p)" where
  "load_point_cloud L ply_path w =
     bindW (w, o3d_read_point_cloud L ply_path (fsys w)) (\<lambda>w pcd.
       (print (''Loaded point cloud with '' @ show_nat (length (o3d_points L pcd)) @ '' points'') w,
        Inr pcd))"

text \<open>
  Lines 34 to 61. The radius is \<^verbatim>\<open>np.mean(distances) * 2\<close>; the search parameter is
  \<^verbatim>\<open>KDTreeSearchParamHybrid(radius=radius, max_nn=30)\<close>, given to the interface as the radius
  and the bound; the orientation is called with \<^verbatim>\<open>k=15\<close> on the cloud that the estimation
  updated in place.
\<close>

definition estimate_normals ::
  "('p, 'm, 't, 'v, 'f, 's) lib \<Rightarrow> 'p \<Rightarrow> 's world \<Rightarrow> 's world \<times> (exn + 'p)" where
  "estimate_normals L pcd w =
     bindW (print ''Estimating normals...'' w, o3d_compute_nearest_neighbor_distance L pcd)
       (\<lambda>w distances.
          let avg_dist = np_mean L distances;
              radius = f_mul_int L avg_dist 2
          in bindW (w, o3d_estimate_normals L pcd radius 30) (\<lambda>w pcd.
               (w, o3d_orient_normals_consistent_tangent_plane L pcd 15)))"

text \<open>
  Lines 63 to 98. The four parameters are handed to
  \<^verbatim>\<open>TriangleMesh.create_from_point_cloud_poisson\<close> as they are.
\<close>

definition poisson_reconstruction ::
  "('p, 'm, 't, 'v, 'f, 's) lib \<Rightarrow> 'p \<Rightarrow> int \<Rightarrow> int \<Rightarrow> 'f \<Rightarrow> bool \<Rightarrow> 's world
     \<Rightarrow> 's world \<times> (exn + 'm \<times> 'f list)" where
  "poisson_reconstruction L pcd depth width scale linear_fit w =
     bindW (print (''Running Poisson reconstruction (depth='' @ show_int depth @ '')...'') w,
            o3d_create_from_point_cloud_poisson L pcd depth width scale linear_fit)
       (\<lambda>w (mesh, densities).
          (print (''Reconstructed mesh with '' @ show_nat (length (o3d_vertices L mesh))
                  @ '' vertices and '' @ show_nat (length (o3d_triangles L mesh)) @ '' triangles'') w,
           Inr (mesh, densities)))"

text \<open>
  Line 121, the comparison \<^verbatim>\<open>densities < np.quantile(densities, density_threshold)\<close>,
  element by element.
\<close>

definition density_mask :: "('p, 'm, 't, 'v, 'f, 's) lib \<Rightarrow> 'f list \<Rightarrow> 'f \<Rightarrow> bool list" where
  "density_mask L densities q = map (\<lambda>d. f_less L d q) densities"

text \<open>
  Lines 100 to 133. \<^verbatim>\<open>densities\<close> is \<^verbatim>\<open>Optional\<close>: \<open>None\<close> skips the density step. The four
  passes mutate the mesh in place, in the order of lines 125 to 128.
\<close>

definition clean_mesh ::
  "('p, 'm, 't, 'v, 'f, 's) lib \<Rightarrow> 'm \<Rightarrow> 'f list option \<Rightarrow> 'f \<Rightarrow> 's world
     \<Rightarrow> 's world \<times> (exn + 'm)" where
  "clean_mesh L mesh densities density_threshold w =
     bindW (print ''Cleaning mesh...'' w,
            case densities of
              None \<Rightarrow> Inr mesh
            | Some ds \<Rightarrow>
                bindE (np_quantile L ds density_threshold) (\<lambda>q.
                  o3d_remove_vertices_by_mask L mesh (density_mask L ds q)))
       (\<lambda>w mesh. bindW (w, o3d_remove_degenerate_triangles L mesh)
       (\<lambda>w mesh. bindW (w, o3d_remove_duplicated_triangles L mesh)
       (\<lambda>w mesh. bindW (w, o3d_remove_duplicated_vertices L mesh)
       (\<lambda>w mesh. bindW (w, o3d_remove_non_manifold_edges L mesh)
       (\<lambda>w mesh.
          (print (''Cleaned mesh: '' @ show_nat (length (o3d_vertices L mesh)) @ '' vertices, ''
                  @ show_nat (length (o3d_triangles L mesh)) @ '' triangles'') w,
           Inr mesh))))))"

text \<open>Lines 166 to 174: the voxel fallback, applied to the hole-filled mesh.\<close>

definition voxel_remesh :: "('p, 'm, 't, 'v, 'f, 's) lib \<Rightarrow> 't \<Rightarrow> int \<Rightarrow> exn + 't" where
  "voxel_remesh L tri_mesh resolution =
     bindE (tm_extents_max L tri_mesh) (\<lambda>longest.
       let pitch = f_div_int L longest resolution
       in bindE (tm_voxelized L tri_mesh pitch) (\<lambda>voxelized.
          bindE (tm_as_boxes L voxelized) (\<lambda>boxes.
          bindE (tm_to_mesh L boxes) (\<lambda>tri_mesh.
          tm_filter_laplacian L tri_mesh))))"

text \<open>
  Lines 135 to 181. \<^verbatim>\<open>trimesh.repair.fill_holes\<close> updates the mesh in place (its boolean
  result is dropped by the source); \<^verbatim>\<open>is_watertight\<close> is read again after each step. The
  function returns the mesh only.
\<close>

definition make_watertight ::
  "('p, 'm, 't, 'v, 'f, 's) lib \<Rightarrow> 'm \<Rightarrow> int \<Rightarrow> 's world \<Rightarrow> 's world \<times> (exn + 't)" where
  "make_watertight L mesh resolution w =
     (let vertices = o3d_vertices L mesh;
          triangles = o3d_triangles L mesh
      in bindW (print ''Making mesh watertight...'' w, tm_Trimesh L vertices triangles)
       (\<lambda>w tri_mesh.
          bindW (if \<not> tm_is_watertight L tri_mesh
                 then (print ''Mesh is not watertight, attempting to fix...'' w,
                       tm_fill_holes L tri_mesh)
                 else (w, Inr tri_mesh))
       (\<lambda>w tri_mesh.
          bindW (if \<not> tm_is_watertight L tri_mesh
                 then (print ''Using voxelization to ensure watertightness...'' w,
                       voxel_remesh L tri_mesh resolution)
                 else (w, Inr tri_mesh))
       (\<lambda>w tri_mesh.
          (print (if tm_is_watertight L tri_mesh then ''Mesh is now watertight!''
                  else ''Warning: Mesh may not be fully watertight'') w,
           Inr tri_mesh)))))"

text \<open>
  Lines 183 to 206. The export is told the path only; the mesh is passed on as received.
\<close>

definition save_mesh ::
  "('p, 'm, 't, 'v, 'f, 's) lib \<Rightarrow> 't \<Rightarrow> string \<Rightarrow> string \<Rightarrow> 's world
     \<Rightarrow> 's world \<times> (exn + string)" where
  "save_mesh L mesh output_path file_format w =
     bindW (w, with_suffix (parse_path output_path) (''.'' @ file_format)) (\<lambda>w p.
       let output_path = str_path p
       in bindW (effect w (tm_export L mesh output_path (fsys w))) (\<lambda>w _.
            (print (''Mesh saved to: '' @ output_path) w, Inr output_path)))"

text \<open>
  Lines 255 to 260, one entry for each call of \<^verbatim>\<open>print\<close>.
\<close>

definition final_statistics :: "('p, 'm, 't, 'v, 'f, 's) lib \<Rightarrow> 't \<Rightarrow> string list" where
  "final_statistics L tri_mesh =
     [CHR 0x0A # ''Final mesh statistics:'',
      ''  - Vertices: '' @ show_nat (length (tm_vertices L tri_mesh)),
      ''  - Faces: '' @ show_nat (length (tm_faces L tri_mesh)),
      ''  - Watertight: '' @ show_bool (tm_is_watertight L tri_mesh),
      ''  - Volume: '' @ f_format4 L (tm_volume L tri_mesh),
      ''  - Surface area: '' @ f_format4 L (tm_area L tri_mesh)]"

text \<open>
  Lines 208 to 262. The calls use the defaults of the callees: \<^verbatim>\<open>width=0\<close>,
  \<^verbatim>\<open>scale=1.1\<close>, \<^verbatim>\<open>linear_fit=False\<close> for the reconstruction,
  \<^verbatim>\<open>density_threshold=0.01\<close> for the cleaner, \<^verbatim>\<open>resolution=20000\<close> for the repair. The
  function returns the path only.
\<close>

definition convert_to_watertight_mesh ::
  "('p, 'm, 't, 'v, 'f, 's) lib \<Rightarrow> string \<Rightarrow> string \<Rightarrow> int \<Rightarrow> bool \<Rightarrow> string \<Rightarrow> 's world
     \<Rightarrow> 's world \<times> (exn + string)" where
  "convert_to_watertight_mesh L ply_path output_dir depth clean output_format w =
     bindW (effect w (os_makedirs L output_dir True (fsys w))) (\<lambda>w _.
     bindW (load_point_cloud L ply_path w) (\<lambda>w pcd.
     bindW (if \<not> o3d_has_normals L pcd then estimate_normals L pcd w else (w, Inr pcd)) (\<lambda>w pcd.
     bindW (poisson_reconstruction L pcd depth 0 (py_float L (11 / 10)) False w)
       (\<lambda>w (mesh, densities).
     bindW (if clean then clean_mesh L mesh (Some densities) (py_float L (1 / 100)) w
            else (w, Inr mesh)) (\<lambda>w mesh.
     bindW (make_watertight L mesh 20000 w) (\<lambda>w tri_mesh.
       let base_name = path_stem (parse_path ply_path);
           output_path = os_path_join output_dir (base_name @ ''_watertight.'' @ output_format)
       in bindW (save_mesh L tri_mesh output_path output_format w) (\<lambda>w output_path.
            (w\<lparr>printed := printed w @ final_statistics L tri_mesh\<rparr>, Inr output_path))))))))"


section \<open>Predicates used in the statements\<close>

text \<open>
  \<open>extends_world w w'\<close>: going from \<open>w\<close> to \<open>w'\<close> only appended printed lines and left the
  file system alone. \<open>no_larger L m' m\<close>: the mesh \<open>m'\<close> has at most as many vertices and at
  most as many triangles as \<open>m\<close>.
\<close>

definition extends_world :: "'s world \<Rightarrow> 's world \<Rightarrow> bool" where
  "extends_world w w' \<longleftrightarrow> prefix (printed w) (printed w') \<and> fsys w' = fsys w"

definition no_larger :: "('p, 'm, 't, 'v, 'f, 's) lib \<Rightarrow> 'm \<Rightarrow> 'm \<Rightarrow> bool" where
  "no_larger L m' m \<longleftrightarrow>
     length (o3d_vertices L m') \<le> length (o3d_vertices L m)
     \<and> length (o3d_triangles L m') \<le> length (o3d_triangles L m)"

section \<open>A reference instance of the interface\<close>

text \<open>
  A small executable instance of \<open>lib\<close>, on which the driver can be run: exact rationals for
  the doubles, meshes as vertex and triangle lists, and a file system of directory names and
  stored meshes. Where the packages are known to refuse an input it refuses it too: the
  orientation of normals needs four points, the reconstruction a depth of at least 2, the
  \<^verbatim>\<open>Trimesh\<close> constructor merges duplicate vertices and drops unreferenced ones, a mesh with
  vertices and no faces counts as watertight, \<^verbatim>\<open>to_mesh\<close> does not exist on a \<^verbatim>\<open>Trimesh\<close>, and
  an export in an unknown format leaves an empty file behind. The normal estimation (a
  constant normal) and the reconstructor (the complete complex over the points) are
  stand-ins. The instance is used only where a statement is evaluated on concrete data; the
  general theorems are about every \<open>lib\<close>.
\<close>

type_synonym ref_cloud = "rat vec3 list \<times> rat vec3 list option"
type_synonym ref_mesh = "rat vec3 list \<times> tri list"
type_synonym ref_grid = "rat \<times> (int \<times> int \<times> int) list"

record ref_fs =
  directories :: "string list"
  clouds :: "(string \<times> ref_cloud) list"
  exported :: "(string \<times> ref_mesh) list"
  empty_files :: "string list"

definition ref_read_point_cloud :: "string \<Rightarrow> ref_fs \<Rightarrow> exn + ref_cloud" where
  "ref_read_point_cloud path s =
     (case map_of (clouds s) path of None \<Rightarrow> Inr ([], None) | Some c \<Rightarrow> Inr c)"

definition ref_has_normals :: "ref_cloud \<Rightarrow> bool" where
  "ref_has_normals c = (fst c \<noteq> [] \<and> snd c \<noteq> None)"

text \<open>
  The Euclidean distance, with the square root taken in fixed point: \<open>ref_sqrt x\<close> is the
  largest multiple of \<open>1 / 10 ^ 6\<close> whose square is at most \<open>x\<close>, found by Newton's iteration
  on the integers.
\<close>

fun newton :: "nat \<Rightarrow> int \<Rightarrow> int \<Rightarrow> int" where
  "newton 0 x n = x"
| "newton (Suc k) x n = (let y = (x + n div x) div 2 in if y < x then newton k y n else x)"

definition isqrt :: "int \<Rightarrow> int" where
  "isqrt n = (if n \<le> 0 then 0 else newton 64 n n)"

definition ref_sqrt :: "rat \<Rightarrow> rat" where
  "ref_sqrt x = of_int (isqrt \<lfloor>x * 1000000000000\<rfloor>) / 1000000"

definition dist2 :: "rat vec3 \<Rightarrow> rat vec3 \<Rightarrow> rat" where
  "dist2 a b = (case a of (x, y, z) \<Rightarrow> case b of (x', y', z') \<Rightarrow>
                  (x - x') * (x - x') + (y - y') * (y - y') + (z - z') * (z - z'))"

fun min_list_rat :: "rat list \<Rightarrow> rat" where
  "min_list_rat [] = 0"
| "min_list_rat [x] = x"
| "min_list_rat (x # y # ys) = min x (min_list_rat (y # ys))"

definition ref_nearest_neighbor_distance :: "ref_cloud \<Rightarrow> exn + rat list" where
  "ref_nearest_neighbor_distance c =
     (let ps = fst c
      in Inr (map (\<lambda>i. ref_sqrt (min_list_rat (map (\<lambda>j. dist2 (ps ! i) (ps ! j))
                                   (filter (\<lambda>j. j \<noteq> i) [0..<length ps]))))
                  [0..<length ps]))"

definition ref_estimate_normals :: "ref_cloud \<Rightarrow> rat \<Rightarrow> int \<Rightarrow> exn + ref_cloud" where
  "ref_estimate_normals c radius max_nn =
     (if radius \<le> 0 \<or> max_nn \<le> 0 then Inl RuntimeError
      else Inr (fst c, Some (map (\<lambda>_. (0, 0, 1)) (fst c))))"

definition ref_orient_normals :: "ref_cloud \<Rightarrow> int \<Rightarrow> exn + ref_cloud" where
  "ref_orient_normals c k =
     (if snd c = None \<or> k \<le> 0 \<or> length (fst c) < 4 then Inl RuntimeError else Inr c)"

definition all_triples :: "nat \<Rightarrow> tri list" where
  "all_triples n =
     concat (map (\<lambda>i. concat (map (\<lambda>j. map (\<lambda>k. (i, j, k)) [Suc j..<n]) [Suc i..<n])) [0..<n])"

definition ref_poisson ::
  "ref_cloud \<Rightarrow> int \<Rightarrow> int \<Rightarrow> rat \<Rightarrow> bool \<Rightarrow> exn + (ref_mesh \<times> rat list)" where
  "ref_poisson c depth width scale linear_fit =
     (if depth < 0 then Inl TypeError
      else if depth < 2 \<or> snd c = None then Inl RuntimeError
      else Inr ((fst c, all_triples (length (fst c))), map (\<lambda>_. 1) (fst c)))"

fun index_of :: "'a \<Rightarrow> 'a list \<Rightarrow> nat" where
  "index_of x [] = 0"
| "index_of x (y # ys) = (if x = y then 0 else Suc (index_of x ys))"

definition map_tri :: "(nat \<Rightarrow> nat) \<Rightarrow> tri \<Rightarrow> tri" where
  "map_tri f t = (case t of (a, b, c) \<Rightarrow> (f a, f b, f c))"

definition ref_remove_vertices_by_mask :: "ref_mesh \<Rightarrow> bool list \<Rightarrow> exn + ref_mesh" where
  "ref_remove_vertices_by_mask m vmask =
     (case m of (vs, ts) \<Rightarrow>
        if length vmask \<noteq> length vs then Inl RuntimeError
        else let keep = filter (\<lambda>i. \<not> vmask ! i) [0..<length vs]
             in Inr (map (\<lambda>i. vs ! i) keep,
                     map (map_tri (\<lambda>i. index_of i keep))
                       (filter (\<lambda>(a, b, c). a \<in> set keep \<and> b \<in> set keep \<and> c \<in> set keep) ts)))"

definition ref_remove_degenerate_triangles :: "ref_mesh \<Rightarrow> exn + ref_mesh" where
  "ref_remove_degenerate_triangles m =
     (case m of (vs, ts) \<Rightarrow> Inr (vs, filter (\<lambda>(a, b, c). a \<noteq> b \<and> b \<noteq> c \<and> a \<noteq> c) ts))"

definition ref_remove_duplicated_triangles :: "ref_mesh \<Rightarrow> exn + ref_mesh" where
  "ref_remove_duplicated_triangles m = (case m of (vs, ts) \<Rightarrow> Inr (vs, remdups ts))"

definition ref_remove_duplicated_vertices :: "ref_mesh \<Rightarrow> exn + ref_mesh" where
  "ref_remove_duplicated_vertices m =
     (case m of (vs, ts) \<Rightarrow>
        let vs' = remdups vs
        in Inr (vs', map (map_tri (\<lambda>i. index_of (vs ! i) vs')) ts))"

definition edge :: "nat \<Rightarrow> nat \<Rightarrow> nat \<times> nat" where
  "edge a b = (min a b, max a b)"

definition face_edges :: "tri \<Rightarrow> (nat \<times> nat) list" where
  "face_edges t = (case t of (a, b, c) \<Rightarrow> [edge a b, edge b c, edge c a])"

definition all_edges :: "tri list \<Rightarrow> (nat \<times> nat) list" where
  "all_edges ts = concat (map face_edges ts)"

text \<open>
  While some edge lies on more than two triangles, the smallest triangle on the first such
  edge is removed. Areas are compared by the squared norm of the cross product. Each round
  removes one triangle, so as many rounds as there are triangles suffice.
\<close>

definition tri_area2 :: "rat vec3 list \<Rightarrow> tri \<Rightarrow> rat" where
  "tri_area2 vs t =
     (case t of (a, b, c) \<Rightarrow>
        case vs ! a of (ax, ay, az) \<Rightarrow> case vs ! b of (bx, by, bz) \<Rightarrow> case vs ! c of (cx, cy, cz) \<Rightarrow>
          let ux = bx - ax; uy = by - ay; uz = bz - az;
              vx = cx - ax; vy = cy - ay; vz = cz - az;
              nx = uy * vz - uz * vy; ny = uz * vx - ux * vz; nz = ux * vy - uy * vx
          in nx * nx + ny * ny + nz * nz)"

fun smallest :: "('a \<Rightarrow> rat) \<Rightarrow> 'a list \<Rightarrow> 'a option" where
  "smallest f [] = None"
| "smallest f (x # xs) =
     (case smallest f xs of None \<Rightarrow> Some x | Some y \<Rightarrow> if f x \<le> f y then Some x else Some y)"

fun manifold_rounds :: "nat \<Rightarrow> rat vec3 list \<Rightarrow> tri list \<Rightarrow> tri list" where
  "manifold_rounds 0 vs ts = ts"
| "manifold_rounds (Suc n) vs ts =
     (case List.find (\<lambda>e. 2 < count_list (all_edges ts) e) (all_edges ts) of
        None \<Rightarrow> ts
      | Some e \<Rightarrow>
          (case smallest (tri_area2 vs) (filter (\<lambda>t. e \<in> set (face_edges t)) ts) of
             None \<Rightarrow> ts
           | Some t \<Rightarrow> manifold_rounds n vs (remove1 t ts)))"

definition ref_remove_non_manifold_edges :: "ref_mesh \<Rightarrow> exn + ref_mesh" where
  "ref_remove_non_manifold_edges m =
     (case m of (vs, ts) \<Rightarrow> Inr (vs, manifold_rounds (length ts) vs ts))"

definition ref_mean :: "rat list \<Rightarrow> rat" where
  "ref_mean xs = (if xs = [] then 0 else sum_list xs / of_nat (length xs))"

definition ref_quantile :: "rat list \<Rightarrow> rat \<Rightarrow> exn + rat" where
  "ref_quantile xs q =
     (if xs = [] \<or> q < 0 \<or> 1 < q then Inl ValueError
      else let s = sort xs;
               pos = q * of_nat (length xs - 1);
               i = nat \<lfloor>pos\<rfloor>;
               j = min (Suc i) (length xs - 1)
           in Inr (s ! i + (pos - of_nat i) * (s ! j - s ! i)))"

text \<open>Four decimals, a tie rounded to the even digit, the sign of a negative value kept.\<close>

definition ref_format4 :: "rat \<Rightarrow> string" where
  "ref_format4 x =
     (let k0 = \<lfloor>\<bar>x\<bar> * 10000\<rfloor>;
          r = \<bar>x\<bar> * 10000 - of_int k0;
          k = (if 1 / 2 < r \<or> (r = 1 / 2 \<and> odd k0) then k0 + 1 else k0)
      in (if x < 0 then ''-'' else []) @ show_nat (nat (k div 10000)) @ ''.''
         @ map (\<lambda>p. digit_char (nat (k div p mod 10))) [1000, 100, 10, 1])"

text \<open>
  The constructor with its default processing: of the vertices that a face refers to (all of
  them when there is no face) one of each position is kept, in the order of first occurrence,
  and the faces are renumbered.
\<close>

definition referenced :: "tri list \<Rightarrow> nat list" where
  "referenced ts = concat (map (\<lambda>(a, b, c). [a, b, c]) ts)"

definition ref_Trimesh :: "rat vec3 list \<Rightarrow> tri list \<Rightarrow> exn + ref_mesh" where
  "ref_Trimesh vs ts =
     (if \<not> list_all (\<lambda>i. i < length vs) (referenced ts) then Inl IndexError
      else let used = (if ts = [] then [0..<length vs]
                       else filter (\<lambda>i. i \<in> set (referenced ts)) [0..<length vs]);
               kept = rev (remdups (rev (map (\<lambda>i. vs ! i) used)))
           in Inr (kept, map (map_tri (\<lambda>i. index_of (vs ! i) kept)) ts))"

text \<open>
  Every edge on exactly two faces; a mesh without any data is not watertight, one with
  vertices and no faces is.
\<close>

definition ref_is_watertight :: "ref_mesh \<Rightarrow> bool" where
  "ref_is_watertight m =
     ((fst m \<noteq> [] \<or> snd m \<noteq> [])
      \<and> list_all (\<lambda>e. count_list (all_edges (snd m)) e = 2) (all_edges (snd m)))"

definition ref_fill_holes :: "ref_mesh \<Rightarrow> exn + ref_mesh" where
  "ref_fill_holes m =
     (case m of (vs, ts) \<Rightarrow>
        let boundary = filter (\<lambda>e. count_list (all_edges ts) e = 1) (all_edges ts)
        in case remdups (concat (map (\<lambda>(a, b). [a, b]) boundary)) of
             [a, b, c] \<Rightarrow> if length boundary = 3 then Inr (vs, ts @ [(a, b, c)]) else Inr m
           | _ \<Rightarrow> Inr m)"

definition extent :: "rat list \<Rightarrow> rat" where
  "extent xs = fold max xs (hd xs) - fold min xs (hd xs)"

definition ref_extents_max :: "ref_mesh \<Rightarrow> exn + rat" where
  "ref_extents_max m =
     (if fst m = [] then Inl AttributeError
      else Inr (max (extent (map fst (fst m)))
                 (max (extent (map (\<lambda>v. fst (snd v)) (fst m)))
                      (extent (map (\<lambda>v. snd (snd v)) (fst m))))))"

definition cell_of :: "rat \<Rightarrow> rat vec3 \<Rightarrow> int \<times> int \<times> int" where
  "cell_of pitch v = (case v of (x, y, z) \<Rightarrow> (\<lfloor>x / pitch\<rfloor>, \<lfloor>y / pitch\<rfloor>, \<lfloor>z / pitch\<rfloor>))"

definition ref_voxelized :: "ref_mesh \<Rightarrow> rat \<Rightarrow> exn + ref_grid" where
  "ref_voxelized m pitch =
     (case m of (vs, ts) \<Rightarrow>
        if pitch \<le> 0 then Inl ValueError
        else Inr (pitch, remdups (concat (map (\<lambda>(a, b, c). map (cell_of pitch) [vs ! a, vs ! b, vs ! c]) ts))))"

definition cube_corners :: "rat \<Rightarrow> int \<times> int \<times> int \<Rightarrow> rat vec3 list" where
  "cube_corners pitch c =
     (case c of (i, j, k) \<Rightarrow>
        map (\<lambda>(dx, dy, dz). (pitch * of_int (i + dx), pitch * of_int (j + dy), pitch * of_int (k + dz)))
          [(0, 0, 0), (0, 0, 1), (0, 1, 0), (0, 1, 1), (1, 0, 0), (1, 0, 1), (1, 1, 0), (1, 1, 1)])"

definition cube_faces :: "tri list" where
  "cube_faces =
     [(0, 1, 3), (0, 3, 2), (4, 6, 7), (4, 7, 5), (0, 4, 5), (0, 5, 1),
      (2, 3, 7), (2, 7, 6), (0, 2, 6), (0, 6, 4), (1, 5, 7), (1, 7, 3)]"

definition ref_as_boxes :: "ref_grid \<Rightarrow> exn + ref_mesh" where
  "ref_as_boxes g =
     (case g of (pitch, cells) \<Rightarrow>
        Inr (concat (map (cube_corners pitch) cells),
             concat (map (\<lambda>n. map (map_tri (\<lambda>i. 8 * n + i)) cube_faces) [0..<length cells])))"

definition vadd :: "rat vec3 \<Rightarrow> rat vec3 \<Rightarrow> rat vec3" where
  "vadd a b = (case a of (x, y, z) \<Rightarrow> case b of (x', y', z') \<Rightarrow> (x + x', y + y', z + z'))"

definition vscale :: "rat \<Rightarrow> rat vec3 \<Rightarrow> rat vec3" where
  "vscale k a = (case a of (x, y, z) \<Rightarrow> (k * x, k * y, k * z))"

definition ref_filter_laplacian :: "ref_mesh \<Rightarrow> exn + ref_mesh" where
  "ref_filter_laplacian m =
     (case m of (vs, ts) \<Rightarrow>
        let c = vscale (1 / of_nat (length vs)) (fold vadd vs (0, 0, 0))
        in Inr (map (\<lambda>v. vscale (1 / 2) (vadd v c)) vs, ts))"

definition det3 :: "rat vec3 \<Rightarrow> rat vec3 \<Rightarrow> rat vec3 \<Rightarrow> rat" where
  "det3 a b c =
     (case a of (ax, ay, az) \<Rightarrow> case b of (bx, by, bz) \<Rightarrow> case c of (cx, cy, cz) \<Rightarrow>
        ax * (by * cz - bz * cy) - ay * (bx * cz - bz * cx) + az * (bx * cy - by * cx))"

definition ref_volume :: "ref_mesh \<Rightarrow> rat" where
  "ref_volume m =
     (case m of (vs, ts) \<Rightarrow> sum_list (map (\<lambda>(a, b, c). det3 (vs ! a) (vs ! b) (vs ! c)) ts) / 6)"

definition ref_area :: "ref_mesh \<Rightarrow> rat" where
  "ref_area m = (case m of (vs, ts) \<Rightarrow> sum_list (map (\<lambda>t. ref_sqrt (tri_area2 vs t)) ts) / 2)"

definition ancestors :: "pure_path \<Rightarrow> string list" where
  "ancestors p = map (\<lambda>n. str_path (p\<lparr>parts := take n (parts p)\<rparr>)) [1..<Suc (length (parts p))]"

definition ref_makedirs :: "string \<Rightarrow> bool \<Rightarrow> ref_fs \<Rightarrow> ref_fs \<times> exn option" where
  "ref_makedirs d exist_ok s =
     (if d = [] then (s, Some OSError)
      else if str_path (parse_path d) \<in> set (directories s)
      then (if exist_ok then (s, None) else (s, Some OSError))
      else (s\<lparr>directories := directories s
                 @ filter (\<lambda>a. a \<notin> set (directories s)) (ancestors (parse_path d))\<rparr>, None))"

text \<open>
  The export opens the target before it looks for an exporter: a missing directory fails
  with nothing written, an unknown extension fails with an empty file left behind.
\<close>

definition known_formats :: "string list" where
  "known_formats = [''.obj'', ''.ply'', ''.stl'', ''.off'', ''.glb'']"

definition ref_export :: "ref_mesh \<Rightarrow> string \<Rightarrow> ref_fs \<Rightarrow> ref_fs \<times> exn option" where
  "ref_export m path s =
     (let p = parse_path path
      in if path_name p = [] then (s, Some OSError)
         else if butlast (parts p) \<noteq> []
                 \<and> str_path (p\<lparr>parts := butlast (parts p)\<rparr>) \<notin> set (directories s)
         then (s, Some OSError)
         else if path_suffix p \<notin> set known_formats
         then (s\<lparr>empty_files := str_path p # empty_files s\<rparr>, Some ValueError)
         else (s\<lparr>exported := (str_path p, m) # exported s\<rparr>, None))"

definition ref_lib :: "(ref_cloud, ref_mesh, ref_mesh, ref_grid, rat, ref_fs) lib" where
  "ref_lib =
     \<lparr>o3d_read_point_cloud = ref_read_point_cloud,
      o3d_points = fst,
      o3d_has_normals = ref_has_normals,
      o3d_compute_nearest_neighbor_distance = ref_nearest_neighbor_distance,
      o3d_estimate_normals = ref_estimate_normals,
      o3d_orient_normals_consistent_tangent_plane = ref_orient_normals,
      o3d_create_from_point_cloud_poisson = ref_poisson,
      o3d_vertices = fst,
      o3d_triangles = snd,
      o3d_remove_vertices_by_mask = ref_remove_vertices_by_mask,
      o3d_remove_degenerate_triangles = ref_remove_degenerate_triangles,
      o3d_remove_duplicated_triangles = ref_remove_duplicated_triangles,
      o3d_remove_duplicated_vertices = ref_remove_duplicated_vertices,
      o3d_remove_non_manifold_edges = ref_remove_non_manifold_edges,
      o3d_TriangleMesh = Pair,
      np_mean = ref_mean,
      np_quantile = ref_quantile,
      py_float = (\<lambda>r. r),
      f_mul_int = (\<lambda>x i. x * of_int i),
      f_div_int = (\<lambda>x i. x / of_int i),
      f_less = (<),
      f_format4 = ref_format4,
      tm_Trimesh = ref_Trimesh,
      tm_is_watertight = ref_is_watertight,
      tm_fill_holes = ref_fill_holes,
      tm_extents_max = ref_extents_max,
      tm_voxelized = ref_voxelized,
      tm_as_boxes = ref_as_boxes,
      tm_to_mesh = (\<lambda>_. Inl AttributeError),
      tm_filter_laplacian = ref_filter_laplacian,
      tm_vertices = fst,
      tm_faces = snd,
      tm_volume = ref_volume,
      tm_area = ref_area,
      tm_export = ref_export,
      os_makedirs = ref_makedirs\<rparr>"

definition unit_points :: "rat vec3 list" where
  "unit_points = [(0, 0, 0), (1, 0, 0), (0, 1, 0), (0, 0, 1)]"

definition planar_points :: "rat vec3 list" where
  "planar_points = [(0, 0, 0), (1, 0, 0), (0, 1, 0), (1, 1, 0), (2, 2, 0)]"

definition example_fs :: ref_fs where
  "example_fs =
     \<lparr>directories = [],
      clouds = [(''a/scan.ply'', (unit_points, None)),
                (''b/scan.ply'', (take 2 unit_points, None)),
                (''c/scan.ply'', (planar_points, None))],
      exported = [],
      empty_files = []\<rparr>"

definition example_world :: "ref_fs world" where
  "example_world = \<lparr>printed = [], fsys = example_fs\<rparr>"

subsection \<open>Concrete inputs and expected outputs\<close>

definition flat_points :: "rat vec3 list" where
  "flat_points = [(0, 0, 0), (1, 0, 0), (1 / 2, 0, 0), (1 / 4, 0, 0)]"

definition fs_with_output :: ref_fs where
  "fs_with_output = example_fs\<lparr>directories := [''data'', ''data/output'']\<rparr>"

definition tetrahedron :: ref_mesh where
  "tetrahedron = (unit_points, [(0, 1, 2), (0, 1, 3), (0, 2, 3), (1, 2, 3)])"

definition open_fan :: ref_mesh where
  "open_fan = (flat_points, [(0, 1, 2), (0, 1, 3)])"

definition open_tetrahedron :: ref_mesh where
  "open_tetrahedron = (unit_points, [(0, 1, 2), (0, 1, 3), (0, 2, 3)])"


definition planar_cleaned :: ref_mesh where
  "planar_cleaned = (planar_points, [(0, 1, 4), (0, 2, 4), (1, 2, 3), (1, 2, 4)])"

definition aborted_world :: "ref_fs world" where
  "aborted_world =
     \<lparr>printed =
        [''Loaded point cloud with 5 points'', ''Estimating normals...'',
         ''Running Poisson reconstruction (depth=9)...'',
         ''Reconstructed mesh with 5 vertices and 10 triangles'',
         ''Cleaning mesh...'', ''Cleaned mesh: 5 vertices, 4 triangles'',
         ''Making mesh watertight...'',
         ''Mesh is not watertight, attempting to fix...'',
         ''Using voxelization to ensure watertightness...''],
      fsys = fs_with_output\<rparr>"

definition sample_mesh :: ref_mesh where
  "sample_mesh = ([(0, 0, 0), (1, 0, 0), (0, 1, 0), (0, 0, 1), (0, 0, 1)],
                  [(0, 2, 3), (0, 1, 2), (2, 2, 3), (0, 2, 3)])"

definition sample_densities :: "rat list" where
  "sample_densities = [5, 1, 2, 3, 4]"

definition done_world :: "string \<Rightarrow> string list \<Rightarrow> ref_fs world" where
  "done_world out dirs =
     \<lparr>printed =
        [''Loaded point cloud with 4 points'', ''Estimating normals...'',
         ''Running Poisson reconstruction (depth=9)...'',
         ''Reconstructed mesh with 4 vertices and 4 triangles'',
         ''Cleaning mesh...'', ''Cleaned mesh: 4 vertices, 4 triangles'',
         ''Making mesh watertight...'', ''Mesh is now watertight!'',
         ''Mesh saved to: '' @ out,
         CHR 0x0A # ''Final mesh statistics:'', ''  - Vertices: 4'', ''  - Faces: 4'',
         ''  - Watertight: True'', ''  - Volume: 0.1667'', ''  - Surface area: 2.3660''],
      fsys = example_fs\<lparr>directories := dirs, exported := [(out, tetrahedron)]\<rparr>\<rparr>"

definition after_mask :: ref_mesh where
  "after_mask = ([(0, 0, 0), (0, 1, 0), (0, 0, 1), (0, 0, 1)], [(0, 1, 2), (1, 1, 2), (0, 1, 2)])"

definition after_degenerate :: ref_mesh where
  "after_degenerate = ([(0, 0, 0), (0, 1, 0), (0, 0, 1), (0, 0, 1)], [(0, 1, 2), (0, 1, 2)])"

definition after_dup_triangles :: ref_mesh where
  "after_dup_triangles = ([(0, 0, 0), (0, 1, 0), (0, 0, 1), (0, 0, 1)], [(0, 1, 2)])"

definition cleaned_mesh :: ref_mesh where
  "cleaned_mesh = ([(0, 0, 0), (0, 1, 0), (0, 0, 1)], [(0, 1, 2)])"

section \<open>Basic facts\<close>

lemma bindE_simps [simp]:
  "bindE (Inl e) f = Inl e"
  "bindE (Inr x) f = f x"
  by (simp_all add: bindE_def)

lemma bindW_simps [simp]:
  "bindW (w, Inl e) g = (w, Inl e)"
  "bindW (w, Inr x) g = g w x"
  by (simp_all add: bindW_def)

lemma print_simps [simp]:
  "printed (print line w) = printed w @ [line]"
  "fsys (print line w) = fsys w"
  by (simp_all add: print_def)

lemma effect_simps [simp]:
  "effect w (s, None) = (w\<lparr>fsys := s\<rparr>, Inr ())"
  "effect w (s, Some e) = (w\<lparr>fsys := s\<rparr>, Inl e)"
  "printed (fst (effect w r)) = printed w"
  by (simp_all add: effect_def)

lemma effect_Inr_iff: "effect w r = (w', Inr u) \<longleftrightarrow> r = (fsys w', None) \<and> w' = w\<lparr>fsys := fst r\<rparr>"
  by (cases r; cases "snd r") (auto simp: effect_def)

lemma print_twice: "print b (print a w) = w\<lparr>printed := printed w @ [a, b]\<rparr>"
  by (simp add: print_def)

subsection \<open>Paths\<close>

lemma split_on_nonempty [simp]: "split_on c s \<noteq> []"
  by (induction s) (auto split: list.splits)

lemma split_on_no_sep: "c \<notin> set s \<Longrightarrow> split_on c s = [s]"
  by (induction s) (auto split: list.splits)

lemma split_on_append_sep: "split_on c (xs @ c # ys) = split_on c xs @ split_on c ys"
proof (induction xs)
  case Nil
  show ?case by simp
next
  case (Cons x xs)
  have ne: "split_on c xs \<noteq> []" by simp
  show ?case
    using Cons ne by (cases "split_on c xs") auto
qed

lemma split_on_sep_free: "x \<in> set (split_on c s) \<Longrightarrow> c \<notin> set x"
proof (induction s arbitrary: x)
  case Nil
  then show ?case by simp
next
  case (Cons a s)
  have ne: "split_on c s \<noteq> []" by simp
  show ?case
  proof (cases "a = c")
    case True
    with Cons show ?thesis by auto
  next
    case False
    obtain y ys where sp: "split_on c s = y # ys"
      using ne by (cases "split_on c s") auto
    with Cons.prems False have "x = a # y \<or> x \<in> set ys" by auto
    moreover have "c \<notin> set y" using Cons.IH sp by simp
    moreover have "\<And>z. z \<in> set ys \<Longrightarrow> c \<notin> set z" using Cons.IH sp by simp
    ultimately show ?thesis using False by auto
  qed
qed

lemma path_name_sep_free: "CHR ''/'' \<notin> set (path_name (parse_path s))"
proof (cases "parts (parse_path s) = []")
  case True
  then show ?thesis by (simp add: path_name_def)
next
  case False
  then have "last (parts (parse_path s)) \<in> set (parts (parse_path s))" by simp
  then have "last (parts (parse_path s)) \<in> set (split_on CHR ''/'' (dropWhile (\<lambda>c. c = CHR ''/'') s))"
    by (simp add: parse_path_def Let_def)
  then show ?thesis using False by (simp add: path_name_def split_on_sep_free)
qed

lemma path_stem_sep_free: "CHR ''/'' \<notin> set (path_stem (parse_path s))"
  using path_name_sep_free [of s]
  by (auto simp: path_stem_def Let_def dest: in_set_takeD)

lemma rfind_last_dot:
  assumes "c \<notin> set ext"
  shows "rfind c (pre @ c # ext) = int (length pre)"
proof -
  have "takeWhile (\<lambda>x. x \<noteq> c) (rev ext @ c # rev pre)
          = rev ext @ takeWhile (\<lambda>x. x \<noteq> c) (c # rev pre)"
  proof (rule takeWhile_append2)
    fix x assume "x \<in> set (rev ext)"
    with assms show "x \<noteq> c" by auto
  qed
  then show ?thesis by (simp add: rfind_def)
qed

lemma path_suffix_plain:
  assumes "path_name p = pre @ CHR ''.'' # ext" "pre \<noteq> []" "ext \<noteq> []" "CHR ''.'' \<notin> set ext"
  shows "path_suffix p = CHR ''.'' # ext"
  using assms by (cases ext) (simp_all add: path_suffix_def rfind_last_dot)

lemma take_old_suffix:
  "path_suffix p \<noteq> [] \<Longrightarrow>
     take (length (path_name p) - length (path_suffix p)) (path_name p) = path_stem p"
  by (auto simp: path_suffix_def path_stem_def Let_def split: if_splits intro: arg_cong)

lemma path_suffix_empty: "path_suffix p = [] \<Longrightarrow> path_stem p = path_name p"
  by (auto simp: path_suffix_def path_stem_def Let_def split: if_splits)

lemma with_suffix_ok:
  assumes "path_name p \<noteq> []" "ext \<noteq> []" "CHR ''/'' \<notin> set ext"
  shows "with_suffix p (CHR ''.'' # ext) =
           Inr (p\<lparr>parts := butlast (parts p) @ [path_stem p @ CHR ''.'' # ext]\<rparr>)"
  using assms
  by (simp add: with_suffix_def Let_def take_old_suffix path_suffix_empty)

lemma join_sep_snoc: "join_sep (xs @ [y]) = (if xs = [] then y else join_sep xs @ CHR ''/'' # y)"
  by (induction xs rule: join_sep.induct) auto

lemma str_path_ends:
  assumes "parts p = pre @ [y]" "y \<noteq> []"
  shows "suffix y (str_path p)"
  using assms by (auto simp: str_path_def Let_def join_sep_snoc suffix_def)

lemma parts_join_last:
  assumes "name \<noteq> []" "CHR ''/'' \<notin> set name" "name \<noteq> ''.''"
  shows "\<exists>pre. parts (parse_path (os_path_join d name)) = pre @ [name]"
proof -
  let ?P = "\<lambda>c. c = CHR ''/''"
  let ?keep = "\<lambda>x::string. x \<noteq> [] \<and> x \<noteq> ''.''"
  have hd_name: "hd name \<noteq> CHR ''/''"
    using assms by (cases name) auto
  have dw_name: "dropWhile ?P name = name"
    using assms hd_name by (cases name) auto
  have single: "filter ?keep (split_on CHR ''/'' name) = [name]"
    using assms by (simp add: split_on_no_sep)
  have core: "\<exists>pre. filter ?keep (split_on CHR ''/'' (dropWhile ?P (a @ CHR ''/'' # name))) = pre @ [name]"
    for a
  proof (cases "\<forall>x\<in>set a. ?P x")
    case True
    then have "dropWhile ?P (a @ CHR ''/'' # name) = name"
      using dw_name by simp
    then show ?thesis using single by simp
  next
    case False
    then obtain x where "x \<in> set a" "\<not> ?P x" by blast
    then have "dropWhile ?P (a @ CHR ''/'' # name) = dropWhile ?P a @ CHR ''/'' # name"
      by simp
    then show ?thesis using single by (simp add: split_on_append_sep)
  qed
  show ?thesis
  proof (cases "d = []")
    case True
    then show ?thesis
      using hd_name assms dw_name single by (simp add: os_path_join_def parse_path_def Let_def)
  next
    case False
    show ?thesis
    proof (cases "last d = CHR ''/''")
      case True
      then obtain a where d: "d = a @ [CHR ''/'']"
        using False by (metis append_butlast_last_id)
      from core [of a] d True False hd_name assms show ?thesis
        by (simp add: os_path_join_def parse_path_def Let_def)
    next
      case slash: False
      from core [of d] slash False hd_name assms show ?thesis
        by (simp add: os_path_join_def parse_path_def Let_def)
    qed
  qed
qed

lemma with_suffix_watertight_name:
  assumes "fmt \<noteq> []" "CHR ''.'' \<notin> set fmt" "CHR ''/'' \<notin> set fmt" "CHR ''/'' \<notin> set base"
  shows "with_suffix (parse_path (os_path_join d (base @ ''_watertight.'' @ fmt))) (''.'' @ fmt) =
           Inr (parse_path (os_path_join d (base @ ''_watertight.'' @ fmt)))"
proof -
  let ?name = "base @ ''_watertight.'' @ fmt"
  let ?p = "parse_path (os_path_join d ?name)"
  have "?name \<noteq> []" "CHR ''/'' \<notin> set ?name" "?name \<noteq> ''.''"
    using assms by auto
  then obtain pre where pre: "parts ?p = pre @ [?name]"
    using parts_join_last by blast
  then have nm: "path_name ?p = (base @ ''_watertight'') @ CHR ''.'' # fmt"
    by (simp add: path_name_def)
  have sfx: "path_suffix ?p = CHR ''.'' # fmt"
    using path_suffix_plain [OF nm] assms by simp
  have "take (length (path_name ?p) - length (path_suffix ?p)) (path_name ?p) = base @ ''_watertight''"
    unfolding sfx nm by simp
  then show ?thesis
    using assms pre sfx nm by (simp add: with_suffix_def Let_def)
qed

subsection \<open>Effects of the methods\<close>

lemma bindW_Inr_iff:
  "bindW r f = (w', Inr y) \<longleftrightarrow> (\<exists>w1 x. r = (w1, Inr x) \<and> f w1 x = (w', Inr y))"
  by (cases r) (auto simp: bindW_def split: sum.splits)

lemma bindW_cases:
  obtains (fail) w1 e where "r = (w1, Inl e)" "bindW r f = (w1, Inl e)"
        | (ok) w1 x where "r = (w1, Inr x)" "bindW r f = f w1 x"
  by (cases r; cases "snd r") (auto simp: bindW_def)

lemma extends_world_refl [simp]: "extends_world w w"
  by (simp add: extends_world_def)

lemma extends_world_print [simp]: "extends_world w (print line w)"
  by (simp add: extends_world_def)

lemma extends_world_trans: "extends_world a b \<Longrightarrow> extends_world b c \<Longrightarrow> extends_world a c"
  by (auto simp: extends_world_def)

lemma extends_world_print_after: "extends_world a b \<Longrightarrow> extends_world a (print line b)"
  by (auto simp: extends_world_def intro: prefix_order.trans)

lemma bindW_extends:
  assumes "extends_world w (fst r)"
    and "\<And>w1 x. extends_world w w1 \<Longrightarrow> extends_world w (fst (f w1 x))"
  shows "extends_world w (fst (bindW r f))"
  using assms by (cases r rule: bindW_cases [where f = f]) auto

lemma load_point_cloud_extends: "extends_world w (fst (load_point_cloud L ply_path w))"
  unfolding load_point_cloud_def
  by (rule bindW_extends) (simp_all add: extends_world_print_after)

lemma estimate_normals_extends: "extends_world w (fst (estimate_normals L pcd w))"
  unfolding estimate_normals_def Let_def
  by (intro bindW_extends) simp_all





lemma no_larger_refl [simp]: "no_larger L m m"
  by (simp add: no_larger_def)

lemma no_larger_trans: "no_larger L c b \<Longrightarrow> no_larger L b a \<Longrightarrow> no_larger L c a"
  by (auto simp: no_larger_def)

lemma bindE_Inr_iff: "bindE r f = Inr y \<longleftrightarrow> (\<exists>x. r = Inr x \<and> f x = Inr y)"
  by (cases r) auto

lemma save_mesh_Inr:
  assumes "save_mesh L mesh output_path file_format w = (w', Inr out)"
  shows "Inr out = map_sum id str_path (with_suffix (parse_path output_path) (''.'' @ file_format))
       \<and> tm_export L mesh out (fsys w) = (fsys w', None)
       \<and> printed w' = printed w @ [''Mesh saved to: '' @ out]"
  using assms
  by (auto simp: save_mesh_def Let_def bindW_Inr_iff effect_Inr_iff)

lemma voxel_remesh_raises:
  assumes "\<And>boxes. tm_to_mesh L boxes = Inl AttributeError"
  shows "voxel_remesh L t resolution \<noteq> Inr x"
  using assms
  by (auto simp: voxel_remesh_def Let_def bindE_def split: sum.splits)

lemma make_watertight_Inr_watertight:
  assumes "\<And>boxes. tm_to_mesh L boxes = Inl AttributeError"
    and "make_watertight L mesh resolution w = (w', Inr t)"
  shows "tm_is_watertight L t"
  using assms(2) voxel_remesh_raises [OF assms(1)]
  by (auto simp: make_watertight_def Let_def bindW_Inr_iff split: if_splits)

lemma save_mesh_no_name:
  assumes "path_name (parse_path output_path) = []"
  shows "save_mesh L mesh output_path file_format w = (w, Inl ValueError)"
  using assms by (simp add: save_mesh_def with_suffix_def Let_def)

lemma convert_Inr:
  assumes "convert_to_watertight_mesh L ply_path output_dir depth clean output_format w = (w', Inr out)"
  shows "\<exists>s w1 pcd w5 mesh w6 t w7.
           os_makedirs L output_dir True (fsys w) = (s, None)
         \<and> load_point_cloud L ply_path (w\<lparr>fsys := s\<rparr>) = (w1, Inr pcd)
         \<and> make_watertight L mesh 20000 w5 = (w6, Inr t)
         \<and> save_mesh L t (os_path_join output_dir
               (path_stem (parse_path ply_path) @ ''_watertight.'' @ output_format))
             output_format w6 = (w7, Inr out)
         \<and> w' = w7\<lparr>printed := printed w7 @ final_statistics L t\<rparr>"
  using assms
  by (simp add: convert_to_watertight_mesh_def Let_def bindW_Inr_iff effect_Inr_iff
        split_paired_Ex) (metis prod.collapse)









subsection \<open>The reference instance\<close>

lemma ref_by_mask_no_larger:
  "o3d_remove_vertices_by_mask ref_lib m vm = Inr m' \<Longrightarrow> no_larger ref_lib m' m"
proof -
  assume a: "o3d_remove_vertices_by_mask ref_lib m vm = Inr m'"
  obtain vs ts where m: "m = (vs, ts)" by (cases m)
  have "length (filter (\<lambda>i. \<not> vm ! i) [0..<length vs]) \<le> length [0..<length vs]"
    by (rule length_filter_le)
  then show ?thesis
    using a m
    by (auto simp: ref_lib_def ref_remove_vertices_by_mask_def no_larger_def Let_def
             split: if_splits)
qed

lemma ref_degenerate_no_larger:
  "o3d_remove_degenerate_triangles ref_lib m = Inr m' \<Longrightarrow> no_larger ref_lib m' m"
  by (cases m) (auto simp: ref_lib_def ref_remove_degenerate_triangles_def no_larger_def)

lemma ref_dup_triangles_no_larger:
  "o3d_remove_duplicated_triangles ref_lib m = Inr m' \<Longrightarrow> no_larger ref_lib m' m"
  by (cases m) (auto simp: ref_lib_def ref_remove_duplicated_triangles_def no_larger_def
                      length_remdups_leq)

lemma ref_dup_vertices_no_larger:
  "o3d_remove_duplicated_vertices ref_lib m = Inr m' \<Longrightarrow> no_larger ref_lib m' m"
  by (cases m) (auto simp: ref_lib_def ref_remove_duplicated_vertices_def no_larger_def Let_def
                      length_remdups_leq)

lemma manifold_rounds_length: "length (manifold_rounds n vs ts) \<le> length ts"
proof (induction n arbitrary: ts)
  case 0
  show ?case by simp
next
  case (Suc n)
  have "length (manifold_rounds n vs (remove1 t ts)) \<le> length ts" for t
    using Suc [of "remove1 t ts"] by (simp add: length_remove1 split: if_splits)
  then show ?case
    by (simp split: option.splits)
qed

lemma ref_non_manifold_no_larger:
  "o3d_remove_non_manifold_edges ref_lib m = Inr m' \<Longrightarrow> no_larger ref_lib m' m"
  by (cases m) (auto simp: ref_lib_def ref_remove_non_manifold_edges_def no_larger_def
                      manifold_rounds_length)

lemma run_done:
  "convert_to_watertight_mesh ref_lib ''a/scan.ply'' ''data/output'' 9 True ''obj'' example_world =
     (done_world ''data/output/scan_watertight.obj'' [''data'', ''data/output''],
      Inr ''data/output/scan_watertight.obj'')"
  by code_simp



lemma run_aborted:
  "convert_to_watertight_mesh ref_lib ''c/scan.ply'' ''data/output'' 9 True ''obj'' example_world =
     (aborted_world, Inl AttributeError)"
  by code_simp

lemma run_dot_dir:
  "convert_to_watertight_mesh ref_lib ''a/scan.ply'' ''./out'' 9 True ''obj'' example_world =
     (done_world ''out/scan_watertight.obj'' [''out''], Inr ''out/scan_watertight.obj'')"
  by code_simp

section \<open>The claims\<close>

subsection \<open>C1: how a failed repair is reported\<close>

text \<open>
  C1. The claim describes a repair that ends not watertight and still hands a mesh and a status
  flag to the caller. The code cannot end that way. With \<^verbatim>\<open>to_mesh\<close> missing on the value of
  \<^verbatim>\<open>as_boxes()\<close> (line 171): every mesh that \<open>make_watertight\<close> returns is watertight;
  whenever the pipeline returns a path, the repair it ran returned a watertight mesh, which is
  the mesh it exported; and for a mesh that is still not watertight after hole filling,
  \<open>make_watertight\<close> ends with an exception and returns no mesh at all.
\<close>

theorem failed_repair_aborts:
  assumes "\<And>boxes. tm_to_mesh L boxes = Inl AttributeError"
  shows "(make_watertight L mesh resolution wi = (wo, Inr t) \<longrightarrow> tm_is_watertight L t)
       \<and> (convert_to_watertight_mesh L ply_path output_dir depth clean output_format w = (w', Inr out)
            \<longrightarrow> (\<exists>mesh' w5 w6 t'.
                   make_watertight L mesh' 20000 w5 = (w6, Inr t')
                 \<and> tm_is_watertight L t'
                 \<and> tm_export L t' out (fsys w6) = (fsys w', None)))
       \<and> (tm_Trimesh L (o3d_vertices L mesh) (o3d_triangles L mesh) = Inr tc
            \<and> \<not> tm_is_watertight L tc
            \<and> tm_fill_holes L tc = Inr tf
            \<and> \<not> tm_is_watertight L tf
            \<longrightarrow> (\<exists>e. snd (make_watertight L mesh resolution wi) = Inl e))"
proof (intro conjI impI)
  assume "make_watertight L mesh resolution wi = (wo, Inr t)"
  then show "tm_is_watertight L t"
    by (rule make_watertight_Inr_watertight [OF assms])
next
  assume "convert_to_watertight_mesh L ply_path output_dir depth clean output_format w = (w', Inr out)"
  from convert_Inr [OF this] obtain w5 mesh' w6 t' w7 where
    mw: "make_watertight L mesh' 20000 w5 = (w6, Inr t')"
    and sv: "save_mesh L t' (os_path_join output_dir
               (path_stem (parse_path ply_path) @ ''_watertight.'' @ output_format))
             output_format w6 = (w7, Inr out)"
    and w': "w' = w7\<lparr>printed := printed w7 @ final_statistics L t'\<rparr>"
    by blast
  from mw have "tm_is_watertight L t'"
    by (rule make_watertight_Inr_watertight [OF assms])
  with save_mesh_Inr [OF sv] w' mw
  show "\<exists>mesh' w5 w6 t'.
             make_watertight L mesh' 20000 w5 = (w6, Inr t')
           \<and> tm_is_watertight L t'
           \<and> tm_export L t' out (fsys w6) = (fsys w', None)"
    by (intro exI [of _ mesh'] exI [of _ w5] exI [of _ w6] exI [of _ t']) simp
next
  assume a: "tm_Trimesh L (o3d_vertices L mesh) (o3d_triangles L mesh) = Inr tc
            \<and> \<not> tm_is_watertight L tc
            \<and> tm_fill_holes L tc = Inr tf
            \<and> \<not> tm_is_watertight L tf"
  from voxel_remesh_raises [OF assms, of tf resolution]
  obtain e where "voxel_remesh L tf resolution = Inl e"
    by (cases "voxel_remesh L tf resolution") auto
  with a show "\<exists>e. snd (make_watertight L mesh resolution wi) = Inl e"
    by (simp add: make_watertight_def)
qed

text \<open>
  The statement at the reference instance. The tetrahedron is returned, and is watertight;
  the four-point scan is converted, and the mesh exported is watertight; the mesh that the
  cleaner leaves of the planar five-point scan stays open after hole filling, the repair
  raises, and the pipeline run with the default parameters ends with \<^verbatim>\<open>AttributeError\<close>
  after nine printed lines, without a mesh, a flag or a file.
\<close>

theorem failed_repair_aborts_witness:
  "(\<forall>boxes. tm_to_mesh ref_lib boxes = Inl AttributeError)
   \<and> make_watertight ref_lib tetrahedron 20000 example_world =
       (example_world\<lparr>printed := [''Making mesh watertight...'', ''Mesh is now watertight!'']\<rparr>,
        Inr tetrahedron)
   \<and> tm_is_watertight ref_lib tetrahedron
   \<and> (\<exists>mesh' w5 w6 t'.
         make_watertight ref_lib mesh' 20000 w5 = (w6, Inr t')
       \<and> tm_is_watertight ref_lib t'
       \<and> tm_export ref_lib t' ''data/output/scan_watertight.obj'' (fsys w6)
           = (fsys (done_world ''data/output/scan_watertight.obj'' [''data'', ''data/output'']), None))
   \<and> tm_Trimesh ref_lib (o3d_vertices ref_lib planar_cleaned) (o3d_triangles ref_lib planar_cleaned)
       = Inr planar_cleaned
   \<and> \<not> tm_is_watertight ref_lib planar_cleaned
   \<and> tm_fill_holes ref_lib planar_cleaned = Inr planar_cleaned
   \<and> (\<exists>e. snd (make_watertight ref_lib planar_cleaned 20000 example_world) = Inl e)
   \<and> convert_to_watertight_mesh ref_lib ''c/scan.ply'' ''data/output'' 9 True ''obj'' example_world
       = (aborted_world, Inl AttributeError)
   \<and> exported (fsys aborted_world) = []"
proof -
  have h: "tm_to_mesh ref_lib boxes = Inl AttributeError" for boxes
    by (simp add: ref_lib_def)
  have p1: "make_watertight ref_lib tetrahedron 20000 example_world =
       (example_world\<lparr>printed := [''Making mesh watertight...'', ''Mesh is now watertight!'']\<rparr>,
        Inr tetrahedron)"
    by code_simp
  have q1: "tm_Trimesh ref_lib (o3d_vertices ref_lib planar_cleaned)
              (o3d_triangles ref_lib planar_cleaned) = Inr planar_cleaned"
    by code_simp
  have q2: "\<not> tm_is_watertight ref_lib planar_cleaned"
    by code_simp
  have q3: "tm_fill_holes ref_lib planar_cleaned = Inr planar_cleaned"
    by code_simp
  have e: "exported (fsys aborted_world) = []"
    by code_simp
  note T = failed_repair_aborts [of ref_lib, OF h]
  from T [where mesh = tetrahedron and resolution = 20000 and wi = example_world
      and t = tetrahedron] p1
  have c1: "tm_is_watertight ref_lib tetrahedron"
    by blast
  from T [where ply_path = "''a/scan.ply''" and output_dir = "''data/output''" and depth = 9
      and clean = True and output_format = "''obj''" and w = example_world] run_done
  have c2: "\<exists>mesh' w5 w6 t'.
         make_watertight ref_lib mesh' 20000 w5 = (w6, Inr t')
       \<and> tm_is_watertight ref_lib t'
       \<and> tm_export ref_lib t' ''data/output/scan_watertight.obj'' (fsys w6)
           = (fsys (done_world ''data/output/scan_watertight.obj'' [''data'', ''data/output'']), None)"
    by blast
  from T [where mesh = planar_cleaned and resolution = 20000 and wi = example_world
      and tc = planar_cleaned and tf = planar_cleaned] q1 q2 q3
  have c3: "\<exists>e. snd (make_watertight ref_lib planar_cleaned 20000 example_world) = Inl e"
    by blast
  from h have h': "\<forall>boxes. tm_to_mesh ref_lib boxes = Inl AttributeError"
    by blast
  show ?thesis
    using h' p1 c1 c2 q1 q2 q3 c3 run_aborted e by (intro conjI)
qed

subsection \<open>C2: invalid input\<close>




subsection \<open>C3: hole filling first, voxelisation second\<close>

text \<open>
  C3. For a mesh whose \<^verbatim>\<open>Trimesh\<close> is not watertight, \<open>make_watertight\<close> first calls
  \<^verbatim>\<open>fill_holes\<close>, and returns the filled mesh if it is watertight. Otherwise the filled mesh
  is voxelised with pitch equal to its longest bounding-box extent divided by the resolution
  and the grid is turned into boxes; the next call, \<^verbatim>\<open>to_mesh\<close> on the boxes, raises
  \<^verbatim>\<open>AttributeError\<close>, and \<open>make_watertight\<close> ends with that exception after three printed
  lines. No mesh is rebuilt from the boxes and the Laplacian filter is never reached, whatever
  it would do.
\<close>

theorem voxel_fallback_raises:
  assumes "tm_Trimesh L (o3d_vertices L mesh) (o3d_triangles L mesh) = Inr t0"
    and "\<not> tm_is_watertight L t0"
    and "tm_fill_holes L t0 = Inr t1"
  shows "(tm_is_watertight L t1 \<longrightarrow>
            make_watertight L mesh resolution w =
              (w\<lparr>printed := printed w @ [''Making mesh watertight...'',
                   ''Mesh is not watertight, attempting to fix...'',
                   ''Mesh is now watertight!'']\<rparr>, Inr t1))
       \<and> (\<not> tm_is_watertight L t1
            \<and> tm_extents_max L t1 = Inr longest
            \<and> tm_voxelized L t1 (f_div_int L longest resolution) = Inr grid
            \<and> tm_as_boxes L grid = Inr boxes
            \<and> tm_to_mesh L boxes = Inl AttributeError \<longrightarrow>
            make_watertight L mesh resolution w =
              (w\<lparr>printed := printed w @ [''Making mesh watertight...'',
                   ''Mesh is not watertight, attempting to fix...'',
                   ''Using voxelization to ensure watertightness...'']\<rparr>, Inl AttributeError))"
  using assms
  by (simp add: make_watertight_def voxel_remesh_def print_def)

text \<open>
  C3 at the reference instance. A tetrahedron with one face missing is closed by the hole
  filling. An open fan of two triangles stays open; with resolution 1 it is voxelised with
  pitch 1 into two cells and two boxes, and the repair ends with \<^verbatim>\<open>AttributeError\<close>.
\<close>

theorem voxel_fallback_raises_witness:
  "tm_Trimesh ref_lib (o3d_vertices ref_lib open_tetrahedron) (o3d_triangles ref_lib open_tetrahedron)
     = Inr open_tetrahedron
   \<and> \<not> tm_is_watertight ref_lib open_tetrahedron
   \<and> tm_fill_holes ref_lib open_tetrahedron = Inr tetrahedron
   \<and> tm_is_watertight ref_lib tetrahedron
   \<and> make_watertight ref_lib open_tetrahedron 20000 example_world =
       (example_world\<lparr>printed := [''Making mesh watertight...'',
           ''Mesh is not watertight, attempting to fix...'', ''Mesh is now watertight!'']\<rparr>,
        Inr tetrahedron)
   \<and> tm_Trimesh ref_lib (o3d_vertices ref_lib open_fan) (o3d_triangles ref_lib open_fan) = Inr open_fan
   \<and> \<not> tm_is_watertight ref_lib open_fan
   \<and> tm_fill_holes ref_lib open_fan = Inr open_fan
   \<and> tm_extents_max ref_lib open_fan = Inr 1
   \<and> tm_voxelized ref_lib open_fan (f_div_int ref_lib 1 1) = Inr (1, [(1, 0, 0), (0, 0, 0)])
   \<and> map_sum id (\<lambda>b. (length (fst b), length (snd b))) (tm_as_boxes ref_lib (1, [(1, 0, 0), (0, 0, 0)]))
       = Inr (16, 24)
   \<and> make_watertight ref_lib open_fan 1 example_world =
       (example_world\<lparr>printed := [''Making mesh watertight...'',
           ''Mesh is not watertight, attempting to fix...'',
           ''Using voxelization to ensure watertightness...'']\<rparr>, Inl AttributeError)"
proof -
  have a1: "tm_Trimesh ref_lib (o3d_vertices ref_lib open_tetrahedron)
              (o3d_triangles ref_lib open_tetrahedron) = Inr open_tetrahedron"
    by code_simp
  have a2: "\<not> tm_is_watertight ref_lib open_tetrahedron"
    by code_simp
  have a3: "tm_fill_holes ref_lib open_tetrahedron = Inr tetrahedron"
    by code_simp
  have a4: "tm_is_watertight ref_lib tetrahedron"
    by code_simp
  have h1: "tm_Trimesh ref_lib (o3d_vertices ref_lib open_fan) (o3d_triangles ref_lib open_fan)
              = Inr open_fan"
    by code_simp
  have h2: "\<not> tm_is_watertight ref_lib open_fan"
    by code_simp
  have h3: "tm_fill_holes ref_lib open_fan = Inr open_fan"
    by code_simp
  have h4: "tm_extents_max ref_lib open_fan = Inr 1"
    by code_simp
  have h5: "tm_voxelized ref_lib open_fan (f_div_int ref_lib 1 1) = Inr (1, [(1, 0, 0), (0, 0, 0)])"
    by code_simp
  have h6: "map_sum id (\<lambda>b. (length (fst b), length (snd b)))
              (tm_as_boxes ref_lib (1, [(1, 0, 0), (0, 0, 0)])) = Inr (16, 24)"
    by code_simp
  then obtain boxes where h7: "tm_as_boxes ref_lib (1, [(1, 0, 0), (0, 0, 0)]) = Inr boxes"
    by (cases "tm_as_boxes ref_lib (1, [(1, 0, 0), (0, 0, 0)])") auto
  have h8: "tm_to_mesh ref_lib boxes = Inl AttributeError"
    by (simp add: ref_lib_def)
  from voxel_fallback_raises [OF a1 a2 a3, of 20000 example_world] a4
  have c1: "make_watertight ref_lib open_tetrahedron 20000 example_world =
       (example_world\<lparr>printed := printed example_world @ [''Making mesh watertight...'',
           ''Mesh is not watertight, attempting to fix...'', ''Mesh is now watertight!'']\<rparr>,
        Inr tetrahedron)"
    by blast
  from voxel_fallback_raises [OF h1 h2 h3, of 1 example_world 1 "(1, [(1, 0, 0), (0, 0, 0)])" boxes]
    h2 h4 h5 h7 h8
  have c2: "make_watertight ref_lib open_fan 1 example_world =
       (example_world\<lparr>printed := printed example_world @ [''Making mesh watertight...'',
           ''Mesh is not watertight, attempting to fix...'',
           ''Using voxelization to ensure watertightness...'']\<rparr>, Inl AttributeError)"
    by blast
  have p: "printed example_world = []"
    by (simp add: example_world_def)
  from c1 c2 have c1': "make_watertight ref_lib open_tetrahedron 20000 example_world =
       (example_world\<lparr>printed := [''Making mesh watertight...'',
           ''Mesh is not watertight, attempting to fix...'', ''Mesh is now watertight!'']\<rparr>,
        Inr tetrahedron)"
    and c2': "make_watertight ref_lib open_fan 1 example_world =
       (example_world\<lparr>printed := [''Making mesh watertight...'',
           ''Mesh is not watertight, attempting to fix...'',
           ''Using voxelization to ensure watertightness...'']\<rparr>, Inl AttributeError)"
    by (simp_all add: p)
  show ?thesis
    using a1 a2 a3 a4 c1' h1 h2 h3 h4 h5 h6 c2' by (intro conjI)
qed

subsection \<open>C4: a watertight mesh is returned without repair\<close>




subsection \<open>C5: density removal, then the topology passes\<close>

text \<open>
  C5. With densities present, the cleaner takes the quantile \<open>q\<close> of the density array and
  removes the vertices selected by the mask \<^verbatim>\<open>densities < q\<close> (strictly below); without
  densities this step is skipped. In both cases the four passes follow, in the order
  degenerate triangles, duplicated triangles, duplicated vertices, non-manifold edges, and the
  result of the last pass is returned.
\<close>

theorem clean_mesh_density_then_topology:
  assumes "case densities of
             None \<Rightarrow> m1 = mesh
           | Some ds \<Rightarrow> (\<exists>q. np_quantile L ds density_threshold = Inr q
                \<and> o3d_remove_vertices_by_mask L mesh (map (\<lambda>d. f_less L d q) ds) = Inr m1)"
    and "o3d_remove_degenerate_triangles L m1 = Inr m2"
    and "o3d_remove_duplicated_triangles L m2 = Inr m3"
    and "o3d_remove_duplicated_vertices L m3 = Inr m4"
    and "o3d_remove_non_manifold_edges L m4 = Inr m5"
  shows "clean_mesh L mesh densities density_threshold w =
           (w\<lparr>printed := printed w @ [''Cleaning mesh...'',
               ''Cleaned mesh: '' @ show_nat (length (o3d_vertices L m5)) @ '' vertices, ''
                 @ show_nat (length (o3d_triangles L m5)) @ '' triangles'']\<rparr>,
            Inr m5)"
  using assms
  by (auto simp add: clean_mesh_def density_mask_def print_def split: option.splits)

text \<open>
  C5 at a five-vertex mesh with densities 5, 1, 2, 3, 4 and quantile 1/4: the threshold is 2,
  one vertex is removed, and each pass is applied to the result of the one before.
\<close>

theorem clean_mesh_density_then_topology_witness:
  "(\<exists>q. np_quantile ref_lib sample_densities (1 / 4) = Inr q
        \<and> o3d_remove_vertices_by_mask ref_lib sample_mesh
            (map (\<lambda>d. f_less ref_lib d q) sample_densities) = Inr after_mask)
   \<and> o3d_remove_degenerate_triangles ref_lib after_mask = Inr after_degenerate
   \<and> o3d_remove_duplicated_triangles ref_lib after_degenerate = Inr after_dup_triangles
   \<and> o3d_remove_duplicated_vertices ref_lib after_dup_triangles = Inr cleaned_mesh
   \<and> o3d_remove_non_manifold_edges ref_lib cleaned_mesh = Inr cleaned_mesh
   \<and> clean_mesh ref_lib sample_mesh (Some sample_densities) (1 / 4) example_world =
       (example_world\<lparr>printed := printed example_world
           @ [''Cleaning mesh...'', ''Cleaned mesh: 3 vertices, 1 triangles'']\<rparr>, Inr cleaned_mesh)"
proof -
  have q: "np_quantile ref_lib sample_densities (1 / 4) = Inr 2"
    by code_simp
  have m: "o3d_remove_vertices_by_mask ref_lib sample_mesh
             (map (\<lambda>d. f_less ref_lib d 2) sample_densities) = Inr after_mask"
    by code_simp
  have s1: "\<exists>q. np_quantile ref_lib sample_densities (1 / 4) = Inr q
        \<and> o3d_remove_vertices_by_mask ref_lib sample_mesh
            (map (\<lambda>d. f_less ref_lib d q) sample_densities) = Inr after_mask"
    using q m by blast
  then have s1': "case Some sample_densities of
             None \<Rightarrow> after_mask = sample_mesh
           | Some ds \<Rightarrow> (\<exists>q. np_quantile ref_lib ds (1 / 4) = Inr q
                \<and> o3d_remove_vertices_by_mask ref_lib sample_mesh (map (\<lambda>d. f_less ref_lib d q) ds)
                    = Inr after_mask)"
    by simp
  have s2: "o3d_remove_degenerate_triangles ref_lib after_mask = Inr after_degenerate"
    by code_simp
  have s3: "o3d_remove_duplicated_triangles ref_lib after_degenerate = Inr after_dup_triangles"
    by code_simp
  have s4: "o3d_remove_duplicated_vertices ref_lib after_dup_triangles = Inr cleaned_mesh"
    by code_simp
  have s5: "o3d_remove_non_manifold_edges ref_lib cleaned_mesh = Inr cleaned_mesh"
    by code_simp
  have n: "''Cleaned mesh: '' @ show_nat (length (o3d_vertices ref_lib cleaned_mesh)) @ '' vertices, ''
             @ show_nat (length (o3d_triangles ref_lib cleaned_mesh)) @ '' triangles''
           = ''Cleaned mesh: 3 vertices, 1 triangles''"
    by code_simp
  from clean_mesh_density_then_topology [OF s1' s2 s3 s4 s5, of example_world]
  have "clean_mesh ref_lib sample_mesh (Some sample_densities) (1 / 4) example_world =
       (example_world\<lparr>printed := printed example_world
           @ [''Cleaning mesh...'', ''Cleaned mesh: 3 vertices, 1 triangles'']\<rparr>, Inr cleaned_mesh)"
    unfolding n .
  with s1 s2 s3 s4 s5 show ?thesis by (intro conjI)
qed

subsection \<open>C6: cleaning never adds vertices or triangles\<close>

text \<open>
  C6. Given that each of the five open3d removal calls returns a mesh with no more vertices
  and no more triangles than it received, the mesh returned by \<open>clean_mesh\<close> has no more
  vertices and no more triangles than its input, with or without densities.
\<close>

theorem clean_mesh_never_increases:
  assumes by_mask: "\<And>m vm m'. o3d_remove_vertices_by_mask L m vm = Inr m' \<Longrightarrow> no_larger L m' m"
    and degenerate: "\<And>m m'. o3d_remove_degenerate_triangles L m = Inr m' \<Longrightarrow> no_larger L m' m"
    and dup_tris: "\<And>m m'. o3d_remove_duplicated_triangles L m = Inr m' \<Longrightarrow> no_larger L m' m"
    and dup_verts: "\<And>m m'. o3d_remove_duplicated_vertices L m = Inr m' \<Longrightarrow> no_larger L m' m"
    and non_manifold: "\<And>m m'. o3d_remove_non_manifold_edges L m = Inr m' \<Longrightarrow> no_larger L m' m"
    and run: "clean_mesh L mesh densities density_threshold w = (w', Inr mesh')"
  shows "length (o3d_vertices L mesh') \<le> length (o3d_vertices L mesh)
       \<and> length (o3d_triangles L mesh') \<le> length (o3d_triangles L mesh)"
proof -
  from run obtain m1 m2 m3 m4 where
    s1: "(case densities of None \<Rightarrow> Inr mesh
          | Some ds \<Rightarrow> bindE (np_quantile L ds density_threshold) (\<lambda>q.
              o3d_remove_vertices_by_mask L mesh (density_mask L ds q))) = Inr m1"
    and s2: "o3d_remove_degenerate_triangles L m1 = Inr m2"
    and s3: "o3d_remove_duplicated_triangles L m2 = Inr m3"
    and s4: "o3d_remove_duplicated_vertices L m3 = Inr m4"
    and s5: "o3d_remove_non_manifold_edges L m4 = Inr mesh'"
    by (auto simp: clean_mesh_def bindW_Inr_iff)
  have "no_larger L m1 mesh"
    using s1 by_mask by (auto simp: bindE_Inr_iff split: option.splits)
  then have "no_larger L mesh' mesh"
    using degenerate [OF s2] dup_tris [OF s3] dup_verts [OF s4] non_manifold [OF s5]
    by (blast intro: no_larger_trans)
  then show ?thesis by (simp add: no_larger_def)
qed

text \<open>
  C6 at the reference instance, whose five removal operations are proved above to meet the
  condition: 5 vertices and 4 triangles go in, 3 and 1 come out.
\<close>

theorem clean_mesh_never_increases_witness:
  "clean_mesh ref_lib sample_mesh (Some sample_densities) (1 / 4) example_world =
     (example_world\<lparr>printed := [''Cleaning mesh...'', ''Cleaned mesh: 3 vertices, 1 triangles'']\<rparr>,
      Inr cleaned_mesh)
   \<and> length (o3d_vertices ref_lib sample_mesh) = 5
   \<and> length (o3d_triangles ref_lib sample_mesh) = 4
   \<and> length (o3d_vertices ref_lib cleaned_mesh) \<le> length (o3d_vertices ref_lib sample_mesh)
   \<and> length (o3d_triangles ref_lib cleaned_mesh) \<le> length (o3d_triangles ref_lib sample_mesh)"
proof -
  have run: "clean_mesh ref_lib sample_mesh (Some sample_densities) (1 / 4) example_world =
     (example_world\<lparr>printed := [''Cleaning mesh...'', ''Cleaned mesh: 3 vertices, 1 triangles'']\<rparr>,
      Inr cleaned_mesh)"
    by code_simp
  have v: "length (o3d_vertices ref_lib sample_mesh) = 5"
    by code_simp
  have t: "length (o3d_triangles ref_lib sample_mesh) = 4"
    by code_simp
  have "length (o3d_vertices ref_lib cleaned_mesh) \<le> length (o3d_vertices ref_lib sample_mesh)
      \<and> length (o3d_triangles ref_lib cleaned_mesh) \<le> length (o3d_triangles ref_lib sample_mesh)"
  proof (rule clean_mesh_never_increases [where L = ref_lib])
    show "clean_mesh ref_lib sample_mesh (Some sample_densities) (1 / 4) example_world =
       (example_world\<lparr>printed := [''Cleaning mesh...'', ''Cleaned mesh: 3 vertices, 1 triangles'']\<rparr>,
        Inr cleaned_mesh)"
      by (rule run)
  qed (erule ref_by_mask_no_larger ref_degenerate_no_larger ref_dup_triangles_no_larger
         ref_dup_vertices_no_larger ref_non_manifold_no_larger)+
  with run v t show ?thesis by (intro conjI) simp_all
qed

subsection \<open>C7: the normal estimation\<close>

text \<open>
  The fit of the tangent plane (the eigenvector of the smallest eigenvalue of the covariance
  of the neighbours) and the propagation of the orientation (the flipping of a normal against
  its parent) are computed inside \<^verbatim>\<open>estimate_normals\<close> and
  \<^verbatim>\<open>orient_normals_consistent_tangent_plane\<close> of open3d; the module holds no line of them,
  and they are fields of the interface here. What the module itself fixes is stated below:
  the spacing \<open>d\<close> is the mean of the nearest-neighbour distances, the search is the hybrid
  one with radius \<open>2 d\<close> and at most 30 neighbours, and the orientation is called with
  \<open>k = 15\<close> on the cloud the estimation returned.
\<close>

lemma estimate_normals_parameters:
  assumes "o3d_compute_nearest_neighbor_distance L pcd = Inr distances"
  shows "estimate_normals L pcd w =
           (print ''Estimating normals...'' w,
            bindE (o3d_estimate_normals L pcd (f_mul_int L (np_mean L distances) 2) 30) (\<lambda>pcd'.
              o3d_orient_normals_consistent_tangent_plane L pcd' 15))"
  using assms
  by (simp add: estimate_normals_def Let_def bindW_def bindE_def split: sum.splits)

text \<open>
  At the four unit points every nearest-neighbour distance is 1 and the radius is 2.
\<close>

lemma estimate_normals_unit_points:
  "o3d_compute_nearest_neighbor_distance ref_lib (unit_points, None) = Inr [1, 1, 1, 1]
   \<and> f_mul_int ref_lib (np_mean ref_lib [1, 1, 1, 1]) 2 = 2
   \<and> fst (estimate_normals ref_lib (unit_points, None) example_world)
       = print ''Estimating normals...'' example_world
   \<and> snd (estimate_normals ref_lib (unit_points, None) example_world)
       = bindE (o3d_estimate_normals ref_lib (unit_points, None) 2 30)
           (\<lambda>pcd'. o3d_orient_normals_consistent_tangent_plane ref_lib pcd' 15)"
proof -
  have h: "o3d_compute_nearest_neighbor_distance ref_lib (unit_points, None) = Inr [1, 1, 1, 1]"
    by code_simp
  have r: "f_mul_int ref_lib (np_mean ref_lib [1, 1, 1, 1]) 2 = 2"
    by code_simp
  from estimate_normals_parameters [OF h, of example_world] h r
  show ?thesis by simp
qed

subsection \<open>C8: the extension of the exported file\<close>

text \<open>
  C8, as stated, at a concrete input. For a path without a final component (the empty
  path, or \<^verbatim>\<open>/\<close>) \<^verbatim>\<open>with_suffix\<close> raises \<^verbatim>\<open>ValueError\<close>: nothing is written, nothing
  is printed, no path is returned.
\<close>

theorem save_mesh_empty_name_counterexample:
  "save_mesh ref_lib tetrahedron [] ''obj'' example_world = (example_world, Inl ValueError)
   \<and> save_mesh ref_lib tetrahedron ''/'' ''obj'' example_world = (example_world, Inl ValueError)"
  by code_simp

text \<open>
  C8, amended. For every mesh, every output path that has a final component and every
  non-empty format without a slash: if the export succeeds, \<open>save_mesh\<close> exports the mesh it
  was given, unchanged, to the path whose final component is the stem of the original one
  followed by a dot and the format, returns that path, and the path ends with the dot and the
  format.
\<close>

theorem save_mesh_normalises_extension:
  assumes "path_name (parse_path output_path) \<noteq> []"
    and "file_format \<noteq> []"
    and "CHR ''/'' \<notin> set file_format"
    and "out = str_path ((parse_path output_path)
                 \<lparr>parts := butlast (parts (parse_path output_path))
                    @ [path_stem (parse_path output_path) @ ''.'' @ file_format]\<rparr>)"
    and "tm_export L mesh out (fsys w) = (s, None)"
  shows "save_mesh L mesh output_path file_format w =
           (print (''Mesh saved to: '' @ out) (w\<lparr>fsys := s\<rparr>), Inr out)
       \<and> suffix (''.'' @ file_format) out"
proof -
  let ?p = "parse_path output_path"
  let ?p' = "?p\<lparr>parts := butlast (parts ?p) @ [path_stem ?p @ ''.'' @ file_format]\<rparr>"
  have ws: "with_suffix ?p (''.'' @ file_format) = Inr ?p'"
    using with_suffix_ok [OF assms(1-3)] by simp
  have "suffix (path_stem ?p @ ''.'' @ file_format) (str_path ?p')"
    by (rule str_path_ends [where pre = "butlast (parts ?p)"]) simp_all
  then have "suffix (''.'' @ file_format) out"
    unfolding assms(4) by (meson suffix_order.trans suffixI)
  then show ?thesis
    using ws assms(4,5) by (simp add: save_mesh_def Let_def)
qed

text \<open>
  The amended statement at \<^verbatim>\<open>model.stl\<close> with format \<^verbatim>\<open>obj\<close>.
\<close>

theorem save_mesh_normalises_extension_witness:
  "path_name (parse_path ''model.stl'') \<noteq> []
   \<and> ''obj'' \<noteq> []
   \<and> CHR ''/'' \<notin> set ''obj''
   \<and> tm_export ref_lib tetrahedron ''model.obj'' (fsys example_world)
       = (example_fs\<lparr>exported := [(''model.obj'', tetrahedron)]\<rparr>, None)
   \<and> save_mesh ref_lib tetrahedron ''model.stl'' ''obj'' example_world =
       (print (''Mesh saved to: '' @ ''model.obj'')
          (example_world\<lparr>fsys := example_fs\<lparr>exported := [(''model.obj'', tetrahedron)]\<rparr>\<rparr>),
        Inr ''model.obj'')
   \<and> suffix (''.'' @ ''obj'') ''model.obj''"
proof -
  have h1: "path_name (parse_path ''model.stl'') \<noteq> []"
    by code_simp
  have h2: "''obj'' \<noteq> []" and h3: "CHR ''/'' \<notin> set ''obj''"
    by simp_all
  have h4: "''model.obj'' = str_path ((parse_path ''model.stl'')
                 \<lparr>parts := butlast (parts (parse_path ''model.stl''))
                    @ [path_stem (parse_path ''model.stl'') @ ''.'' @ ''obj'']\<rparr>)"
    by code_simp
  have h5: "tm_export ref_lib tetrahedron ''model.obj'' (fsys example_world)
       = (example_fs\<lparr>exported := [(''model.obj'', tetrahedron)]\<rparr>, None)"
    by code_simp
  from save_mesh_normalises_extension [OF h1 h2 h3 h4 h5] h1 h2 h3 h5
  show ?thesis by blast
qed

subsection \<open>C10: the output directory and the returned path\<close>

text \<open>
  C10, as stated, at a concrete input. With the output directory \<^verbatim>\<open>./out\<close> the pipeline
  returns \<^verbatim>\<open>out/scan_watertight.obj\<close>, whereas the directory joined with the file name is
  \<^verbatim>\<open>./out/scan_watertight.obj\<close>.
\<close>

theorem output_path_counterexample:
  "snd (convert_to_watertight_mesh ref_lib ''a/scan.ply'' ''./out'' 9 True ''obj'' example_world)
     = Inr ''out/scan_watertight.obj''
   \<and> os_path_join ''./out'' (path_stem (parse_path ''a/scan.ply'') @ ''_watertight.'' @ ''obj'')
     = ''./out/scan_watertight.obj''
   \<and> ''out/scan_watertight.obj'' \<noteq> ''./out/scan_watertight.obj''"
proof -
  have "os_path_join ''./out'' (path_stem (parse_path ''a/scan.ply'') @ ''_watertight.'' @ ''obj'')
     = ''./out/scan_watertight.obj''"
    by code_simp
  then show ?thesis by (simp add: run_dot_dir)
qed

text \<open>
  C10, amended. For a non-empty format without a dot or a slash: whenever the pipeline
  returns a path, \<^verbatim>\<open>os.makedirs(output_dir, exist_ok=True)\<close> was its first effect and
  succeeded, the cloud was read from the file system it left, and the returned path is the
  \<^verbatim>\<open>pathlib\<close> spelling of the join of the output directory with
  \<^verbatim>\<open><stem>_watertight.<format>\<close>.
\<close>

theorem convert_returns_normalised_join:
  assumes "output_format \<noteq> []"
    and "CHR ''.'' \<notin> set output_format"
    and "CHR ''/'' \<notin> set output_format"
    and "convert_to_watertight_mesh L ply_path output_dir depth clean output_format w = (w', Inr out)"
  shows "(\<exists>s pcd. os_makedirs L output_dir True (fsys w) = (s, None)
                \<and> o3d_read_point_cloud L ply_path s = Inr pcd)
       \<and> out = str_path (parse_path (os_path_join output_dir
                 (path_stem (parse_path ply_path) @ ''_watertight.'' @ output_format)))"
proof -
  from convert_Inr [OF assms(4)] obtain s w1 pcd w6 t w7 where
    mk: "os_makedirs L output_dir True (fsys w) = (s, None)"
    and ld: "load_point_cloud L ply_path (w\<lparr>fsys := s\<rparr>) = (w1, Inr pcd)"
    and sv: "save_mesh L t (os_path_join output_dir
               (path_stem (parse_path ply_path) @ ''_watertight.'' @ output_format))
             output_format w6 = (w7, Inr out)"
    by blast
  from ld have rd: "o3d_read_point_cloud L ply_path s = Inr pcd"
    by (auto simp: load_point_cloud_def bindW_Inr_iff)
  have "with_suffix (parse_path (os_path_join output_dir
            (path_stem (parse_path ply_path) @ ''_watertight.'' @ output_format)))
          (''.'' @ output_format)
        = Inr (parse_path (os_path_join output_dir
            (path_stem (parse_path ply_path) @ ''_watertight.'' @ output_format)))"
    by (rule with_suffix_watertight_name [OF assms(1-3) path_stem_sep_free])
  with save_mesh_Inr [OF sv] mk rd show ?thesis by simp
qed

text \<open>
  The amended statement at the default directory \<^verbatim>\<open>data/output\<close>, where the spelling is
  the join itself.
\<close>

theorem convert_returns_normalised_join_witness:
  "''obj'' \<noteq> [] \<and> CHR ''.'' \<notin> set ''obj'' \<and> CHR ''/'' \<notin> set ''obj''
   \<and> convert_to_watertight_mesh ref_lib ''a/scan.ply'' ''data/output'' 9 True ''obj'' example_world =
       (done_world ''data/output/scan_watertight.obj'' [''data'', ''data/output''],
        Inr ''data/output/scan_watertight.obj'')
   \<and> (\<exists>s pcd. os_makedirs ref_lib ''data/output'' True (fsys example_world) = (s, None)
             \<and> o3d_read_point_cloud ref_lib ''a/scan.ply'' s = Inr pcd)
   \<and> ''data/output/scan_watertight.obj'' = str_path (parse_path (os_path_join ''data/output''
         (path_stem (parse_path ''a/scan.ply'') @ ''_watertight.'' @ ''obj'')))
   \<and> os_path_join ''data/output'' (path_stem (parse_path ''a/scan.ply'') @ ''_watertight.'' @ ''obj'')
       = ''data/output/scan_watertight.obj''"
proof -
  have f1: "''obj'' \<noteq> []" and f2: "CHR ''.'' \<notin> set ''obj''" and f3: "CHR ''/'' \<notin> set ''obj''"
    by simp_all
  have j: "os_path_join ''data/output'' (path_stem (parse_path ''a/scan.ply'') @ ''_watertight.'' @ ''obj'')
       = ''data/output/scan_watertight.obj''"
    by code_simp
  from convert_returns_normalised_join [OF f1 f2 f3 run_done] f1 f2 f3 run_done j
  show ?thesis by blast
qed

end
